theory Spec2Isabelle
  imports Main "HOL-Library.Sublist"
begin

section \<open>Strings of the JavaScript runtime\<close>

text \<open>
  A JavaScript string is modelled as an Isabelle \<open>string\<close> holding its UTF-8 bytes, so
  every ASCII character is one \<open>char\<close>. The operators used by the worker are written
  out: truthiness of a string (\<open>''''\<close> is falsy), \<open>a || b\<close>, \<open>Array.join\<close>,
  \<open>split('@')[0]\<close>, \<open>trim\<close>, \<open>toLowerCase\<close> and the decimal rendering of a number in
  a template literal.
\<close>

definition orElse :: "string \<Rightarrow> string \<Rightarrow> string" where
  \<comment> \<open>\<open>a || b\<close> on strings\<close>
  "orElse a b = (if a = [] then b else a)"

fun join :: "string \<Rightarrow> string list \<Rightarrow> string" where
  "join sep [] = []"
| "join sep [x] = x"
| "join sep (x # y # ys) = x @ sep @ join sep (y # ys)"

definition splitFirst :: "char \<Rightarrow> string \<Rightarrow> string" where
  \<comment> \<open>\<open>s.split(c)[0]\<close>: the part before the first separator, the whole string if there is none\<close>
  "splitFirst c s = takeWhile (\<lambda>x. x \<noteq> c) s"

definition isDigit :: "char \<Rightarrow> bool" where
  \<comment> \<open>the regular expression class \<open>\\d\<close> (no unicode flag): ASCII digits only\<close>
  "isDigit c = (c \<in> set ''0123456789'')"

definition digitChar :: "nat \<Rightarrow> char" where
  "digitChar d = ''0123456789'' ! d"

fun showNat :: "nat \<Rightarrow> string" where
  "showNat n = (if n < 10 then [digitChar n] else showNat (n div 10) @ [digitChar (n mod 10)])"

definition whiteSpace :: "string list" where
  \<comment> \<open>WhiteSpace and LineTerminator of ECMAScript, each as its UTF-8 bytes: U+0009..U+000D,
     U+0020, U+00A0, U+1680, U+2000..U+200A, U+2028, U+2029, U+202F, U+205F, U+3000, U+FEFF\<close>
  "whiteSpace =
     [[CHR 0x09], [CHR 0x0A], [CHR 0x0B], [CHR 0x0C], [CHR 0x0D], [CHR 0x20],
      [CHR 0xC2, CHR 0xA0], [CHR 0xE1, CHR 0x9A, CHR 0x80],
      [CHR 0xE2, CHR 0x80, CHR 0x80], [CHR 0xE2, CHR 0x80, CHR 0x81],
      [CHR 0xE2, CHR 0x80, CHR 0x82], [CHR 0xE2, CHR 0x80, CHR 0x83],
      [CHR 0xE2, CHR 0x80, CHR 0x84], [CHR 0xE2, CHR 0x80, CHR 0x85],
      [CHR 0xE2, CHR 0x80, CHR 0x86], [CHR 0xE2, CHR 0x80, CHR 0x87],
      [CHR 0xE2, CHR 0x80, CHR 0x88], [CHR 0xE2, CHR 0x80, CHR 0x89],
      [CHR 0xE2, CHR 0x80, CHR 0x8A], [CHR 0xE2, CHR 0x80, CHR 0xA8],
      [CHR 0xE2, CHR 0x80, CHR 0xA9], [CHR 0xE2, CHR 0x80, CHR 0xAF],
      [CHR 0xE2, CHR 0x81, CHR 0x9F], [CHR 0xE3, CHR 0x80, CHR 0x80],
      [CHR 0xEF, CHR 0xBB, CHR 0xBF]]"

definition wsLen :: "string list \<Rightarrow> string \<Rightarrow> nat" where
  \<comment> \<open>the number of bytes of the white space character heading \<open>s\<close>, 0 when there is none\<close>
  "wsLen ws s = (case find (\<lambda>p. prefix p s) ws of None \<Rightarrow> 0 | Some p \<Rightarrow> length p)"

fun skipWs :: "string list \<Rightarrow> nat \<Rightarrow> string \<Rightarrow> string" where
  \<comment> \<open>drops leading white space; the counter holds the bytes still to drop of the current
     character\<close>
  "skipWs ws k [] = []"
| "skipWs ws (Suc k) (c # cs) = skipWs ws k cs"
| "skipWs ws 0 (c # cs) =
     (case wsLen ws (c # cs) of 0 \<Rightarrow> c # cs | Suc k \<Rightarrow> skipWs ws k cs)"

definition trim :: "string \<Rightarrow> string" where
  \<comment> \<open>\<open>String.prototype.trim\<close>\<close>
  "trim s = rev (skipWs (map rev whiteSpace) 0 (rev (skipWs whiteSpace 0 s)))"

definition lowerAscii :: "char \<Rightarrow> char" where
  "lowerAscii c =
     (case map_of (zip ''ABCDEFGHIJKLMNOPQRSTUVWXYZ'' ''abcdefghijklmnopqrstuvwxyz'') c of
        Some l \<Rightarrow> l
      | None \<Rightarrow> c)"

fun toLowerCase :: "string \<Rightarrow> string" where
  \<comment> \<open>\<open>String.prototype.toLowerCase\<close>: exact on ASCII; U+212A KELVIN SIGN (bytes E2 84 AA)
     becomes \<open>k\<close>. Other letters outside ASCII are left as they are: their lower case is
     never pure ASCII, so a comparison of the result with an ASCII literal is not
     affected.\<close>
  "toLowerCase (a # b # c # cs) =
     (if a = CHR 0xE2 \<and> b = CHR 0x84 \<and> c = CHR 0xAA then CHR ''k'' # toLowerCase cs
      else lowerAscii a # toLowerCase (b # c # cs))"
| "toLowerCase (a # cs) = lowerAscii a # toLowerCase cs"
| "toLowerCase [] = []"

section \<open>JSON values, HTTP and the collaborators\<close>

datatype json = JString string | JArray "json list" | JObject "(string \<times> json) list"

record http_request =
  url :: string
  http_method :: string
  headers :: "(string \<times> string) list"
  body :: json

datatype fetch_result =
    Rejected string           \<comment> \<open>\<open>fetch\<close> rejects (network fault); the error's message\<close>
  | BodyFails nat string      \<comment> \<open>a response with this status arrives, \<open>response.text()\<close> rejects\<close>
  | Responded nat string      \<comment> \<open>status and body text\<close>

definition ok :: "nat \<Rightarrow> bool" where
  \<comment> \<open>\<open>response.ok\<close>\<close>
  "ok st = (200 \<le> st \<and> st \<le> 299)"

record attachment =
  content :: string
  filename :: string
  type :: string
  disposition :: string

record mail =
  to_email :: string
  to_name :: string
  cc :: "string list"
  from_email :: string
  from_name :: string
  subject :: string
  text_plain :: string
  html :: string
  attachments :: "attachment list"

datatype call = Fetch http_request | SgSend string mail

text \<open>
  What the worker does not define itself is a parameter of the model: the date library
  (\<open>zonedTimeToUtc\<close>, \<open>formatInTimeZone\<close> of date-fns-tz), the \<open>Date\<close> object of the runtime
  (\<open>toISOString\<close>, \<open>new Date(string)\<close>), \<open>btoa\<close>, whether \<open>JSON.parse\<close> accepts a
  text, the global \<open>fetch\<close> and the SendGrid client. A \<open>Date\<close> is its time value in
  milliseconds, \<open>None\<close> for an Invalid Date.
\<close>

record world =
  zonedTimeToUtc :: "string \<Rightarrow> string \<Rightarrow> int option"
  formatInTimeZone :: "int \<Rightarrow> string \<Rightarrow> string \<Rightarrow> string"
  toISOString :: "int \<Rightarrow> string"
  newDate :: "string \<Rightarrow> int option"
  btoa :: "string \<Rightarrow> string option"      \<comment> \<open>\<open>None\<close>: throws InvalidCharacterError\<close>
  jsonParses :: "string \<Rightarrow> bool"          \<comment> \<open>\<open>JSON.parse\<close> returns rather than throws\<close>
  fetch :: "http_request \<Rightarrow> fetch_result"
  sgSend :: "string \<Rightarrow> mail \<Rightarrow> nat option"  \<comment> \<open>\<open>None\<close>: rejects; else the status code\<close>

definition timeClip :: "int \<Rightarrow> int option" where
  \<comment> \<open>\<open>new Date(number)\<close>: outside \<open>\<plusminus>8.64e15\<close> ms the Date is invalid\<close>
  "timeClip t = (if \<bar>t\<bar> \<le> 8640000000000000 then Some t else None)"

datatype error =
    JsonParseFailure string          \<comment> \<open>\<open>request.json()\<close> rejects\<close>
  | InvalidJsonPayload
  | MissingRequiredFields "string list"
  | NotAFunction string             \<comment> \<open>TypeError: a method called on a value that has none\<close>
  | InvalidDateOrTimeFormat
  | CouldNotParsePacificDate
  | InvalidTimeValue                 \<comment> \<open>RangeError of \<open>formatInTimeZone\<close> on an Invalid Date\<close>
  | ApyHubStatus nat string
  | TransportFailure string          \<comment> \<open>\<open>fetch\<close> or \<open>response.text()\<close> rejected\<close>
  | InvalidCharacter                 \<comment> \<open>\<open>btoa\<close> on a character above U+00FF\<close>
  | SendGridFailure

fun message :: "error \<Rightarrow> string" where
  "message (JsonParseFailure m) = m"
| "message InvalidJsonPayload = ''Invalid JSON payload''"
| "message (MissingRequiredFields fs) = ''Missing required fields: '' @ join '', '' fs"
| "message (NotAFunction expr) = expr @ '' is not a function''"
| "message InvalidDateOrTimeFormat = ''Invalid date or time format.''"
| "message CouldNotParsePacificDate = ''Could not parse Pacific date.''"
| "message InvalidTimeValue = ''Invalid time value''"
| "message (ApyHubStatus st txt) =
     ''Failed to generate ICS: ApyHub returned status '' @ showNat st @ '' - '' @ txt"
| "message (TransportFailure m) = m"
| "message InvalidCharacter = ''Invalid character''"
| "message SendGridFailure = ''Failed to send confirmation email via SendGrid.''"

section \<open>src/utils/slack.ts\<close>

datatype level = LOG | WARN | ERROR

datatype logline =
    UrlUndefined | Sending | SlackApiError nat string | SlackErrorDetails string
  | SentResponse string | SlackException string

fun levelOf :: "logline \<Rightarrow> level" where
  "levelOf UrlUndefined = ERROR"
| "levelOf Sending = LOG"
| "levelOf (SlackApiError st txt) = ERROR"
| "levelOf (SlackErrorDetails txt) = ERROR"
| "levelOf (SentResponse txt) = LOG"
| "levelOf (SlackException m) = ERROR"

record slack_run =
  delivered :: "error + bool"   \<comment> \<open>\<open>Inl\<close>: the promise rejects; \<open>Inr b\<close>: it resolves to \<open>b\<close>\<close>
  slog :: "logline list"
  scalls :: "call list"

definition slackRequest :: "string \<Rightarrow> json \<Rightarrow> http_request" where
  "slackRequest webhookUrl payload =
     \<lparr>url = webhookUrl, http_method = ''POST'',
      headers = [(''Content-Type'', ''application/json'')], body = payload\<rparr>"

definition slackTry :: "world \<Rightarrow> string \<Rightarrow> json \<Rightarrow> (error + bool) \<times> logline list" where
  \<comment> \<open>the body of the \<open>try\<close> block of \<open>sendSlackMessage\<close>; \<open>Inl\<close> is a thrown exception. On
     a status that is not a success the error is logged, and once more when the body
     parses as JSON.\<close>
  "slackTry w webhookUrl payload =
     (case fetch w (slackRequest webhookUrl payload) of
        Rejected m \<Rightarrow> (Inl (TransportFailure m), [])
      | BodyFails st m \<Rightarrow> (Inl (TransportFailure m), [])
      | Responded st responseText \<Rightarrow>
          if \<not> ok st
          then (Inr False,
                SlackApiError st responseText
                # (if jsonParses w responseText then [SlackErrorDetails responseText] else []))
          else (Inr (toLowerCase (trim responseText) = ''ok''), [SentResponse responseText]))"

definition sendSlackMessage :: "world \<Rightarrow> string \<Rightarrow> json \<Rightarrow> slack_run" where
  "sendSlackMessage w webhookUrl payload =
     (if webhookUrl = [] then \<lparr>delivered = Inr False, slog = [UrlUndefined], scalls = []\<rparr>
      else
        (case slackTry w webhookUrl payload of
           (Inl e, l) \<Rightarrow>
             \<lparr>delivered = Inr False, slog = Sending # l @ [SlackException (message e)],
              scalls = [Fetch (slackRequest webhookUrl payload)]\<rparr>
         | (Inr b, l) \<Rightarrow>
             \<lparr>delivered = Inr b, slog = Sending # l,
              scalls = [Fetch (slackRequest webhookUrl payload)]\<rparr>))"

section \<open>src/utils/apyhub.ts\<close>

record BookingDetails =
  name :: string
  email :: string
  startTimeISO :: string

definition APYHUB_ICAL_URL :: string where
  "APYHUB_ICAL_URL = ''https://api.apyhub.com/generate/ical/file?output=invite.ics''"

definition pacificTimeZone :: string where
  "pacificTimeZone = ''America/Los_Angeles''"

definition requestBody :: "world \<Rightarrow> BookingDetails \<Rightarrow> int \<Rightarrow> int \<Rightarrow> json" where
  \<comment> \<open>the object literal \<open>requestBody\<close>, for valid start and end Dates\<close>
  "requestBody w details utcStartDate utcEndDate =
     JObject
      [(''summary'', JString (''Interview: '' @ name details)),
       (''description'',
          JString (''Bland AI Support Engineer Interview Slot for '' @ name details
                   @ ''. Please be ready!'')),
       (''organizer_email'', JString ''hello@debtcat.com''),
       (''attendees_emails'', JArray [JString (email details)]),
       (''time_zone'', JString pacificTimeZone),
       (''meeting_date'', JString (formatInTimeZone w utcStartDate pacificTimeZone ''dd-MM-yyyy'')),
       (''start_time'', JString (formatInTimeZone w utcStartDate pacificTimeZone ''HH:mm'')),
       (''end_time'', JString (formatInTimeZone w utcEndDate pacificTimeZone ''HH:mm'')),
       (''organizer_name'', JString ''Bland AI Recruiting'')]"

definition apyRequest :: "string \<Rightarrow> json \<Rightarrow> http_request" where
  "apyRequest apiToken b =
     \<lparr>url = APYHUB_ICAL_URL, http_method = ''POST'',
      headers = [(''Content-Type'', ''application/json''), (''apy-token'', apiToken)],
      body = b\<rparr>"

definition generateICS :: "world \<Rightarrow> BookingDetails \<Rightarrow> string \<Rightarrow> (error + string) \<times> call list" where
  \<comment> \<open>the result (\<open>Inl\<close>: the promise rejects) and the outbound calls made, in order. An
     Invalid Date makes the first \<open>formatInTimeZone\<close> throw, before any request.\<close>
  "generateICS w details apiToken =
     (case newDate w (startTimeISO details) of
        None \<Rightarrow> (Inl InvalidTimeValue, [])
      | Some utcStartDate \<Rightarrow>
          (case timeClip (utcStartDate + 30 * 60 * 1000) of
             None \<Rightarrow> (Inl InvalidTimeValue, [])
           | Some utcEndDate \<Rightarrow>
               (let req = apyRequest apiToken (requestBody w details utcStartDate utcEndDate) in
                case fetch w req of
                  Rejected m \<Rightarrow> (Inl (TransportFailure m), [Fetch req])
                | BodyFails st m \<Rightarrow> (Inl (TransportFailure m), [Fetch req])
                | Responded st txt \<Rightarrow>
                    if \<not> ok st then (Inl (ApyHubStatus st txt), [Fetch req])
                    else (Inr txt, [Fetch req]))))"

section \<open>src/utils/sendgrid.ts\<close>

record EmailDetails =
  toEmail :: string
  toName :: string
  startTimeISO :: string
  icsContent :: string

definition displayPattern :: string where
  "displayPattern = ''MM/dd/yyyy, hh:mm:ss a zzz''"

definition senderName :: string where
  "senderName = ''Bland AI Recruiting''"

definition msg :: "EmailDetails \<Rightarrow> string \<Rightarrow> string \<Rightarrow> mail" where
  \<comment> \<open>the object literal \<open>msg\<close>, given the display time and the base64 of the invite\<close>
  "msg details displayTimePacific b64 =
     \<lparr>to_email = toEmail details, to_name = toName details,
      cc = [''lyori6@gmail.com''],
      from_email = ''hello@debtcat.com'', from_name = senderName,
      subject = ''Interview Confirmation - Bland AI Support Engineer - '' @ toName details,
      text_plain =
        ''Hi '' @ toName details @ '',\<newline>\<newline>Your interview is confirmed for ''
        @ displayTimePacific
        @ ''.\<newline>\<newline>Please find the calendar invite attached.\<newline>\<newline>Best regards,\<newline>''
        @ senderName @ ''\<newline>\<newline>(Raw UTC Time: '' @ EmailDetails.startTimeISO details @ '')'',
      html =
        ''<p>Hi '' @ toName details @ '',</p><p>Your interview is confirmed for <strong>''
        @ displayTimePacific
        @ ''</strong>.</p><p>Please find the calendar invite attached.</p><p>Best regards,<br/>''
        @ senderName @ ''</p><p><small>(Raw UTC Time: '' @ EmailDetails.startTimeISO details
        @ '')</small></p>'',
      attachments =
        [\<lparr>content = b64, filename = ''invite.ics'',
          type = ''text/calendar; method=REQUEST'', disposition = ''attachment''\<rparr>]\<rparr>"

definition sendEmailWithICS :: "world \<Rightarrow> EmailDetails \<Rightarrow> string \<Rightarrow> (error + unit) \<times> call list" where
  \<comment> \<open>\<open>formatInTimeZone\<close> and \<open>btoa\<close> run before the \<open>try\<close>: what they throw is not replaced
     by the SendGrid message\<close>
  "sendEmailWithICS w details apiKey =
     (case newDate w (EmailDetails.startTimeISO details) of
        None \<Rightarrow> (Inl InvalidTimeValue, [])
      | Some dateObjectForDisplay \<Rightarrow>
          (let displayTimePacific =
                 formatInTimeZone w dateObjectForDisplay pacificTimeZone displayPattern in
           case btoa w (icsContent details) of
             None \<Rightarrow> (Inl InvalidCharacter, [])
           | Some b64 \<Rightarrow>
               (let m = msg details displayTimePacific b64 in
                case sgSend w apiKey m of
                  None \<Rightarrow> (Inl SendGridFailure, [SgSend apiKey m])
                | Some statusCode \<Rightarrow> (Inr (), [SgSend apiKey m]))))"

section \<open>src/index.ts\<close>

record Env =
  APY_TOKEN :: string
  SENDGRID_KEY :: string
  HMAC_SECRET :: string
  SLACK_BOOKINGS_URL :: "string option"
  SLACK_ERRORS_URL :: "string option"

text \<open>
  The value of a property of the parsed body. The interface \<open>BlandWebhookInput\<close> declares
  optional strings, but \<open>request.json()\<close> checks nothing at run time: a property can be
  absent, \<open>null\<close>, a string, or any other JSON value (a number, a boolean, an array, an
  object), of which the handler sees the truthiness and, inside a template literal, the
  text.
\<close>

datatype jsvalue =
    Undefined
  | Null
  | Str string
  | NonString bool string    \<comment> \<open>truthiness, and the text in a template literal\<close>

record BlandWebhookInput =
  email :: jsvalue
  interview_date :: jsvalue
  interview_time :: jsvalue

text \<open>
  What \<open>await request.json()\<close> gives: it rejects on a body that is not JSON; a JSON value
  that is not an object (\<open>null\<close>, a number, a string, a boolean) is recorded with its
  truthiness only; of an object the three properties are kept (an array is an object
  with the three absent).
\<close>

datatype payload = Malformed string | Primitive bool | Object BlandWebhookInput

definition str :: "string option \<Rightarrow> string" where
  \<comment> \<open>the string of an optional string known to be truthy\<close>
  "str f = (case f of None \<Rightarrow> [] | Some s \<Rightarrow> s)"

definition truthy :: "string option \<Rightarrow> bool" where
  \<comment> \<open>of an optional string: \<open>undefined\<close> and the empty string are falsy\<close>
  "truthy f = (str f \<noteq> [])"

definition truthyValue :: "jsvalue \<Rightarrow> bool" where
  \<comment> \<open>of a property: \<open>undefined\<close>, \<open>null\<close> and the empty string are falsy\<close>
  "truthyValue v =
     (case v of Undefined \<Rightarrow> False | Null \<Rightarrow> False | Str s \<Rightarrow> s \<noteq> [] | NonString t r \<Rightarrow> t)"

definition asString :: "jsvalue \<Rightarrow> string option" where
  \<comment> \<open>the string, when the value is one: only a string has \<open>split\<close> and \<open>match\<close>\<close>
  "asString v = (case v of Str s \<Rightarrow> Some s | _ \<Rightarrow> None)"

definition strOf :: "jsvalue \<Rightarrow> string" where
  \<comment> \<open>the string of a property known to be a string\<close>
  "strOf v = (case v of Str s \<Rightarrow> s | _ \<Rightarrow> [])"

definition interp :: "jsvalue \<Rightarrow> string" where
  \<comment> \<open>a value inside a template literal\<close>
  "interp v =
     (case v of Undefined \<Rightarrow> ''undefined'' | Null \<Rightarrow> ''null'' | Str s \<Rightarrow> s
      | NonString t r \<Rightarrow> r)"

record SlackData =
  slackName :: "string option"
  slackEmail :: "string option"

definition bookingDataForSlack :: "payload \<Rightarrow> SlackData" where
  \<comment> \<open>lines 53 and 60 to 67. On a truthy email that is not a string, \<open>split\<close> throws inside
     the object literal and the variable keeps its initial \<open>{}\<close>.\<close>
  "bookingDataForSlack p =
     (case p of
        Malformed m \<Rightarrow> \<lparr>slackName = None, slackEmail = None\<rparr>
      | Primitive t \<Rightarrow>
          if t then \<lparr>slackName = Some ''Candidate (No Email)'', slackEmail = None\<rparr>
          else \<lparr>slackName = None, slackEmail = None\<rparr>
      | Object inputData \<Rightarrow>
          if truthyValue (BlandWebhookInput.email inputData)
          then
            (case asString (BlandWebhookInput.email inputData) of
               None \<Rightarrow> \<lparr>slackName = None, slackEmail = None\<rparr>
             | Some e \<Rightarrow>
                 \<lparr>slackName = Some (orElse (splitFirst CHR ''@'' e) ''Candidate''),
                  slackEmail = Some e\<rparr>)
          else \<lparr>slackName = Some ''Candidate (No Email)'', slackEmail = None\<rparr>)"

definition missingFields :: "BlandWebhookInput \<Rightarrow> string list" where
  "missingFields inputData =
     map fst (filter (\<lambda>(field, v). \<not> truthyValue v)
       [(''email'', BlandWebhookInput.email inputData),
        (''interview_date'', interview_date inputData),
        (''interview_time'', interview_time inputData)])"

definition matchDate :: "string \<Rightarrow> (string \<times> string \<times> string) option" where
  \<comment> \<open>\<open>/^(\\d{2})-(\\d{2})-(\\d{4})$/\<close>: the three groups\<close>
  "matchDate s =
     (if length s = 10 \<and> list_all isDigit (take 2 s) \<and> s ! 2 = CHR ''-''
         \<and> list_all isDigit (take 2 (drop 3 s)) \<and> s ! 5 = CHR ''-''
         \<and> list_all isDigit (drop 6 s)
      then Some (take 2 s, take 2 (drop 3 s), drop 6 s) else None)"

definition matchTime :: "string \<Rightarrow> (string \<times> string) option" where
  \<comment> \<open>\<open>/^(\\d{2}):(\\d{2})$/\<close>: the two groups\<close>
  "matchTime s =
     (if length s = 5 \<and> list_all isDigit (take 2 s) \<and> s ! 2 = CHR '':''
         \<and> list_all isDigit (drop 3 s)
      then Some (take 2 s, drop 3 s) else None)"

definition naiveDateTimeString :: "string \<times> string \<times> string \<Rightarrow> string \<times> string \<Rightarrow> string" where
  "naiveDateTimeString dateParts timeParts =
     (case (dateParts, timeParts) of
        ((day, month, year), (hour, minute)) \<Rightarrow>
          year @ ''-'' @ month @ ''-'' @ day @ ''T'' @ hour @ '':'' @ minute @ '':00'')"

definition resolveBooking :: "world \<Rightarrow> payload \<Rightarrow> error + BookingDetails" where
  \<comment> \<open>lines 59 to 95 of the \<open>try\<close> block: from the body to \<open>bookingDetails\<close>. A truthy value
     that is not a string has no \<open>split\<close> (line 62, before the check of line 72) and no
     \<open>match\<close> (lines 80 and 81, before the check of line 82); past those lines the email
     is a string.\<close>
  "resolveBooking w p =
     (case p of
        Malformed m \<Rightarrow> Inl (JsonParseFailure m)
      | Primitive t \<Rightarrow> Inl InvalidJsonPayload
      | Object inputData \<Rightarrow>
          if truthyValue (BlandWebhookInput.email inputData)
             \<and> asString (BlandWebhookInput.email inputData) = None
          then Inl (NotAFunction ''inputData.email.split'')
          else if \<not> truthyValue (BlandWebhookInput.email inputData)
                  \<or> \<not> truthyValue (interview_date inputData)
                  \<or> \<not> truthyValue (interview_time inputData)
          then Inl (MissingRequiredFields (missingFields inputData))
          else
            (case asString (interview_date inputData) of
               None \<Rightarrow> Inl (NotAFunction ''inputData.interview_date.match'')
             | Some d \<Rightarrow>
                 (case asString (interview_time inputData) of
                    None \<Rightarrow> Inl (NotAFunction ''inputData.interview_time.match'')
                  | Some t \<Rightarrow>
                      (case (matchDate d, matchTime t) of
                         (Some dateParts, Some timeParts) \<Rightarrow>
                           (case zonedTimeToUtc w (naiveDateTimeString dateParts timeParts)
                                   pacificTimeZone of
                              None \<Rightarrow> Inl CouldNotParsePacificDate
                            | Some utcDate \<Rightarrow>
                                Inr \<lparr>name =
                                       orElse (splitFirst CHR ''@''
                                                 (strOf (BlandWebhookInput.email inputData)))
                                         ''Valued Candidate'',
                                     email = strOf (BlandWebhookInput.email inputData),
                                     startTimeISO = toISOString w utcDate\<rparr>)
                       | _ \<Rightarrow> Inl InvalidDateOrTimeFormat))))"

datatype response_body =
    PlainText string
  | JsonSuccess string     \<comment> \<open>\<open>{ success: true, message }\<close>\<close>
  | JsonFailure string     \<comment> \<open>\<open>{ success: false, error }\<close>\<close>

record http_response =
  status :: nat
  rbody :: response_body

text \<open>
  One run of the handler: the response returned, the outbound calls awaited before it (in
  order) and the notifications handed to \<open>ctx.waitUntil\<close>, each the webhook and the payload
  of a pending \<open>sendSlackMessage\<close>. The handler returns without their results.
\<close>

record outcome =
  response :: http_response
  calls :: "call list"
  background :: "(string \<times> json) list"

definition mrkdwn :: "string \<Rightarrow> json" where
  "mrkdwn t = JObject [(''type'', JString ''mrkdwn''), (''text'', JString t)]"

definition blocks :: "string \<Rightarrow> string list \<Rightarrow> json" where
  \<comment> \<open>a payload of three blocks: a section with the title, a divider, a section of fields\<close>
  "blocks title fieldTexts =
     JObject [(''blocks'', JArray
       [JObject [(''type'', JString ''section''), (''text'', mrkdwn title)],
        JObject [(''type'', JString ''divider'')],
        JObject [(''type'', JString ''section''), (''fields'', JArray (map mrkdwn fieldTexts))]])]"

definition successMessage :: "BookingDetails \<Rightarrow> string \<Rightarrow> json" where
  \<comment> \<open>the title starts with U+2705\<close>
  "successMessage bookingDetails displayTimePacific =
     blocks ([CHR 0xE2, CHR 0x9C, CHR 0x85] @ '' *New Interview Booked!*'')
       [''*Applicant:* '' @ orElse (name bookingDetails) ''N/A'',
        ''*Email:* '' @ orElse (BookingDetails.email bookingDetails) ''N/A'',
        ''*Time (PT):* '' @ displayTimePacific,
        ''*Calendar Invite:* Sent Successfully!'']"

definition applicantEmail :: "payload \<Rightarrow> string" where
  \<comment> \<open>\<open>bookingDataForSlack.email || (inputData ? inputData.email : 'N/A')\<close> in a template\<close>
  "applicantEmail p =
     (if truthy (slackEmail (bookingDataForSlack p)) then str (slackEmail (bookingDataForSlack p))
      else
        (case p of
           Malformed m \<Rightarrow> ''N/A''
         | Primitive t \<Rightarrow> if t then ''undefined'' else ''N/A''
         | Object inputData \<Rightarrow> interp (BlandWebhookInput.email inputData)))"

definition failureMessage :: "payload \<Rightarrow> error \<Rightarrow> json" where
  \<comment> \<open>the title starts with U+274C\<close>
  "failureMessage p e =
     blocks ([CHR 0xE2, CHR 0x9D, CHR 0x8C] @ '' *Interview Booking Failed!*'')
       [''*Applicant Email:* '' @ applicantEmail p,
        ''*Error Details:* '' @ orElse (message e) ''Unknown internal error'']"

definition notifyIfConfigured :: "string option \<Rightarrow> json \<Rightarrow> (string \<times> json) list" where
  \<comment> \<open>\<open>if (env.URL) ctx.waitUntil(sendSlackMessage(env.URL, payload)...)\<close>, else a warning\<close>
  "notifyIfConfigured u payload = (if truthy u then [(str u, payload)] else [])"

definition tryBlock :: "world \<Rightarrow> Env \<Rightarrow> payload \<Rightarrow> (error + unit) \<times> call list \<times> (string \<times> json) list" where
  \<comment> \<open>the \<open>try\<close> block: \<open>Inl\<close> is the exception that reaches \<open>catch\<close>\<close>
  "tryBlock w env p =
     (case resolveBooking w p of
        Inl e \<Rightarrow> (Inl e, [], [])
      | Inr bookingDetails \<Rightarrow>
          (case newDate w (BookingDetails.startTimeISO bookingDetails) of
             None \<Rightarrow> (Inl InvalidTimeValue, [], [])
           | Some dateObjectForDisplay \<Rightarrow>
               (let displayTimePacific =
                      formatInTimeZone w dateObjectForDisplay pacificTimeZone displayPattern in
                case generateICS w bookingDetails (APY_TOKEN env) of
                  (Inl e, cs) \<Rightarrow> (Inl e, cs, [])
                | (Inr ics, cs) \<Rightarrow>
                    (case sendEmailWithICS w
                            \<lparr>toEmail = BookingDetails.email bookingDetails,
                             toName = name bookingDetails,
                             startTimeISO = BookingDetails.startTimeISO bookingDetails,
                             icsContent = ics\<rparr>
                            (SENDGRID_KEY env) of
                       (Inl e, cs') \<Rightarrow> (Inl e, cs @ cs', [])
                     | (Inr u, cs') \<Rightarrow>
                         (Inr (), cs @ cs',
                          notifyIfConfigured (SLACK_BOOKINGS_URL env)
                            (successMessage bookingDetails displayTimePacific))))))"

definition handleBookEmail :: "world \<Rightarrow> Env \<Rightarrow> payload \<Rightarrow> outcome" where
  "handleBookEmail w env p =
     (case tryBlock w env p of
        (Inr u, cs, bg) \<Rightarrow>
          \<lparr>response = \<lparr>status = 200, rbody = JsonSuccess ''Booking confirmed and email sent.''\<rparr>,
           calls = cs, background = bg\<rparr>
      | (Inl e, cs, bg) \<Rightarrow>
          \<lparr>response =
             \<lparr>status = 500,
              rbody = JsonFailure
                (orElse (message e) ''Failed to process booking due to an internal error.'')\<rparr>,
           calls = cs,
           background = notifyIfConfigured (SLACK_ERRORS_URL env) (failureMessage p e)\<rparr>)"

definition workerFetch :: "world \<Rightarrow> Env \<Rightarrow> string \<Rightarrow> string \<Rightarrow> payload \<Rightarrow> outcome" where
  \<comment> \<open>the exported \<open>fetch\<close>, on the request's verb, the path of its URL and its body\<close>
  "workerFetch w env meth pathname p =
     (if meth \<noteq> ''POST''
      then \<lparr>response = \<lparr>status = 405, rbody = PlainText ''Method Not Allowed''\<rparr>,
            calls = [], background = []\<rparr>
      else if pathname = ''/book-email'' then handleBookEmail w env p
      else \<lparr>response = \<lparr>status = 404, rbody = PlainText ''Not Found''\<rparr>,
            calls = [], background = []\<rparr>)"

definition runBackground :: "world \<Rightarrow> (string \<times> json) list \<Rightarrow> slack_run list" where
  \<comment> \<open>the pending notifications, run to completion\<close>
  "runBackground w bg = map (\<lambda>(u, payload). sendSlackMessage w u payload) bg"

definition isSgSend :: "call \<Rightarrow> bool" where
  "isSgSend c = (case c of SgSend k m \<Rightarrow> True | Fetch r \<Rightarrow> False)"

definition keys :: "json \<Rightarrow> string list" where
  \<comment> \<open>the property names of an object, in order\<close>
  "keys j = (case j of JObject kvs \<Rightarrow> map fst kvs | _ \<Rightarrow> [])"

definition member :: "json \<Rightarrow> string \<Rightarrow> json option" where
  \<comment> \<open>the value of a property of an object, \<open>None\<close> when it has none of that name\<close>
  "member j k = (case j of JObject kvs \<Rightarrow> map_of kvs k | _ \<Rightarrow> None)"

definition allStages :: "world \<Rightarrow> Env \<Rightarrow> payload \<Rightarrow> bool" where
  \<comment> \<open>every stage completes: the booking is resolved, its display time is formatted, the
     invite is generated and the email is sent\<close>
  "allStages w env p =
     (case resolveBooking w p of
        Inl e \<Rightarrow> False
      | Inr bookingDetails \<Rightarrow>
          newDate w (BookingDetails.startTimeISO bookingDetails) \<noteq> None \<and>
          (case fst (generateICS w bookingDetails (APY_TOKEN env)) of
             Inl e \<Rightarrow> False
           | Inr ics \<Rightarrow>
               fst (sendEmailWithICS w
                      \<lparr>toEmail = BookingDetails.email bookingDetails,
                       toName = name bookingDetails,
                       startTimeISO = BookingDetails.startTimeISO bookingDetails,
                       icsContent = ics\<rparr>
                      (SENDGRID_KEY env)) = Inr ()))"

section \<open>Concrete runs\<close>

text \<open>
  A world in which the booking of 21-05-2025 14:30 resolves to 2025-05-21T21:30:00Z, the
  invite service answers the status \<open>apy\<close>, the mail is accepted, and every other request
  (the Slack webhooks) gets the answer \<open>slack\<close>.
\<close>

definition demoWorld :: "nat \<Rightarrow> fetch_result \<Rightarrow> world" where
  "demoWorld apy slack =
     \<lparr>zonedTimeToUtc =
        (\<lambda>s z. if s = ''2025-05-21T14:30:00'' \<and> z = ''America/Los_Angeles''
               then Some 1747863000000 else None),
      formatInTimeZone =
        (\<lambda>t z f. if f = ''dd-MM-yyyy'' then ''21-05-2025''
                 else if f = ''HH:mm'' then (if t = 1747863000000 then ''14:30'' else ''15:00'')
                 else ''05/21/2025, 02:30:00 PM PDT''),
      toISOString = (\<lambda>t. ''2025-05-21T21:30:00.000Z''),
      newDate = (\<lambda>s. if s = ''2025-05-21T21:30:00.000Z'' then Some 1747863000000 else None),
      btoa = (\<lambda>s. Some s),
      jsonParses = (\<lambda>s. take 1 s = ''{''),
      fetch = (\<lambda>r. if url r = APYHUB_ICAL_URL then Responded apy ''BEGIN:VCALENDAR'' else slack),
      sgSend = (\<lambda>k m. Some 202)\<rparr>"

definition demoEnv :: "string option \<Rightarrow> string option \<Rightarrow> Env" where
  "demoEnv bookingsUrl errorsUrl =
     \<lparr>APY_TOKEN = ''apy'', SENDGRID_KEY = ''sg'', HMAC_SECRET = ''h'',
      SLACK_BOOKINGS_URL = bookingsUrl, SLACK_ERRORS_URL = errorsUrl\<rparr>"

definition bookingsHook :: string where
  "bookingsHook = ''https://hooks.slack.com/services/B''"

definition errorsHook :: string where
  "errorsHook = ''https://hooks.slack.com/services/E''"

definition demoInput :: "string \<Rightarrow> payload" where
  "demoInput e =
     Object \<lparr>email = Str e, interview_date = Str ''21-05-2025'',
             interview_time = Str ''14:30''\<rparr>"

definition noFields :: payload where
  "noFields = Object \<lparr>email = Undefined, interview_date = Undefined,
                       interview_time = Undefined\<rparr>"

definition demoDetails :: BookingDetails where
  "demoDetails = \<lparr>name = ''a.b'', email = ''a.b@x.com'',
                   startTimeISO = ''2025-05-21T21:30:00.000Z''\<rparr>"


definition numberEmail :: payload where
  \<comment> \<open>the body \<open>{"email": 123}\<close>\<close>
  "numberEmail = Object \<lparr>email = NonString True ''123'', interview_date = Undefined,
                          interview_time = Undefined\<rparr>"

section \<open>Facts about the stages\<close>


lemma missingFields_exact:
  "missingFields inputData =
     (if truthyValue (BlandWebhookInput.email inputData) then [] else [''email''])
     @ (if truthyValue (interview_date inputData) then [] else [''interview_date''])
     @ (if truthyValue (interview_time inputData) then [] else [''interview_time''])"
  by (simp add: missingFields_def)

text \<open>What a resolved booking says about the request it came from.\<close>

lemma resolveBooking_InrD:
  assumes "resolveBooking w p = Inr bd"
  shows "\<exists>inputData e d t dateParts timeParts utcDate.
           p = Object inputData
           \<and> BlandWebhookInput.email inputData = Str e \<and> e \<noteq> []
           \<and> interview_date inputData = Str d \<and> interview_time inputData = Str t
           \<and> matchDate d = Some dateParts \<and> matchTime t = Some timeParts
           \<and> zonedTimeToUtc w (naiveDateTimeString dateParts timeParts) pacificTimeZone
               = Some utcDate
           \<and> bd = \<lparr>name = orElse (splitFirst CHR ''@'' e) ''Valued Candidate'', email = e,
                    startTimeISO = toISOString w utcDate\<rparr>"
proof (cases p)
  case (Object inputData)
  from assms Object obtain e where e: "BlandWebhookInput.email inputData = Str e" "e \<noteq> []"
    by (cases "BlandWebhookInput.email inputData")
       (simp_all add: resolveBooking_def truthyValue_def asString_def split: if_splits)
  from assms Object e obtain d where d: "interview_date inputData = Str d"
    by (cases "interview_date inputData")
       (simp_all add: resolveBooking_def truthyValue_def asString_def split: if_splits)
  from assms Object e d obtain t where t: "interview_time inputData = Str t"
    by (cases "interview_time inputData")
       (simp_all add: resolveBooking_def truthyValue_def asString_def split: if_splits)
  from assms Object e d t show ?thesis
    by (auto simp: resolveBooking_def truthyValue_def asString_def strOf_def
        split: if_splits option.splits)
qed (use assms in \<open>simp_all add: resolveBooking_def\<close>)

text \<open>
  Once the three fields are strings that match their patterns, the library's answer
  alone decides between the error of line 88 and a booking: the handler checks no range
  of day, month, hour or minute itself.
\<close>

lemma resolveBooking_after_match:
  assumes "BlandWebhookInput.email inputData = Str e" and "e \<noteq> []"
    and "interview_date inputData = Str d" and "interview_time inputData = Str t"
    and "matchDate d = Some dateParts" and "matchTime t = Some timeParts"
  shows "resolveBooking w (Object inputData) =
     (case zonedTimeToUtc w (naiveDateTimeString dateParts timeParts) pacificTimeZone of
        None \<Rightarrow> Inl CouldNotParsePacificDate
      | Some utcDate \<Rightarrow>
          Inr \<lparr>name = orElse (splitFirst CHR ''@'' e) ''Valued Candidate'', email = e,
               startTimeISO = toISOString w utcDate\<rparr>)"
proof -
  have "d \<noteq> []" "t \<noteq> []"
    using assms(5,6) by (auto simp: matchDate_def matchTime_def split: if_splits)
  with assms show ?thesis
    by (simp add: resolveBooking_def truthyValue_def asString_def strOf_def
        split: option.split)
qed

text \<open>
  A truthy email that is not a string stops the handler at line 62, whatever else the
  body holds: the \<open>TypeError\<close> of \<open>split\<close> precedes the check for missing fields.
\<close>

lemma resolveBooking_non_string_email:
  "resolveBooking w (Object \<lparr>email = NonString True r, interview_date = dv,
                             interview_time = tv\<rparr>)
     = Inl (NotAFunction ''inputData.email.split'')"
  by (simp add: resolveBooking_def truthyValue_def asString_def)

lemma out_of_range_fields_match:
  "matchDate ''32-01-2025'' = Some (''32'', ''01'', ''2025'')"
  "matchTime ''25:00'' = Some (''25'', ''00'')"
  "naiveDateTimeString (''32'', ''01'', ''2025'') (''25'', ''00'') = ''2025-01-32T25:00:00''"
  by (simp_all add: matchDate_def matchTime_def isDigit_def naiveDateTimeString_def)

text \<open>The calls of \<open>generateICS\<close>: at most one request, none on an Invalid Date.\<close>

lemma generateICS_calls:
  "snd (generateICS w details tok) =
     (case newDate w (BookingDetails.startTimeISO details) of
        None \<Rightarrow> []
      | Some start \<Rightarrow>
          if \<bar>start + 1800000\<bar> \<le> 8640000000000000
          then [Fetch (apyRequest tok (requestBody w details start (start + 1800000)))]
          else [])"
  by (simp add: generateICS_def timeClip_def Let_def
      split: option.split fetch_result.split)

lemma generateICS_no_SgSend: "\<not> list_ex isSgSend (snd (generateICS w details tok))"
  by (simp add: generateICS_calls isSgSend_def split: option.split)

lemma requestBody_members:
  "keys (requestBody w details s e)
     = [''summary'', ''description'', ''organizer_email'', ''attendees_emails'',
        ''time_zone'', ''meeting_date'', ''start_time'', ''end_time'', ''organizer_name'']"
  "member (requestBody w details s e) ''time_zone'' = Some (JString ''America/Los_Angeles'')"
  "member (requestBody w details s e) ''meeting_date''
     = Some (JString (formatInTimeZone w s ''America/Los_Angeles'' ''dd-MM-yyyy''))"
  "member (requestBody w details s e) ''start_time''
     = Some (JString (formatInTimeZone w s ''America/Los_Angeles'' ''HH:mm''))"
  "member (requestBody w details s e) ''end_time''
     = Some (JString (formatInTimeZone w e ''America/Los_Angeles'' ''HH:mm''))"
  "member (requestBody w details s e) ''start_date_time'' = None"
  "member (requestBody w details s e) ''end_date_time'' = None"
  by (simp_all add: requestBody_def pacificTimeZone_def keys_def member_def)

lemma sendSlackMessage_resolves: "\<exists>b. delivered (sendSlackMessage w u payload) = Inr b"
  by (auto simp: sendSlackMessage_def split: prod.splits sum.splits)

text \<open>
  The one notification of a run goes to the bookings webhook when every stage completed
  and to the errors webhook otherwise, and is skipped when that webhook is not configured.
\<close>

lemma background_destination:
  "\<exists>x. background (handleBookEmail w env p)
         = notifyIfConfigured
             (if allStages w env p then SLACK_BOOKINGS_URL env else SLACK_ERRORS_URL env) x"
proof (cases "resolveBooking w p")
  case (Inl e)
  then show ?thesis
    by (auto simp: handleBookEmail_def tryBlock_def allStages_def)
next
  case (Inr bd)
  show ?thesis
  proof (cases "newDate w (BookingDetails.startTimeISO bd)")
    case None
    with Inr show ?thesis
      by (auto simp: handleBookEmail_def tryBlock_def allStages_def)
  next
    case (Some t)
    obtain r cs where g: "generateICS w bd (APY_TOKEN env) = (r, cs)"
      by (cases "generateICS w bd (APY_TOKEN env)")
    show ?thesis
    proof (cases r)
      case (Inl e)
      with Inr Some g show ?thesis
        by (auto simp: handleBookEmail_def tryBlock_def allStages_def)
    next
      case (Inr ics)
      obtain r' cs' where s: "sendEmailWithICS w
          \<lparr>toEmail = BookingDetails.email bd, toName = name bd,
           startTimeISO = BookingDetails.startTimeISO bd, icsContent = ics\<rparr>
          (SENDGRID_KEY env) = (r', cs')"
        by (cases "sendEmailWithICS w
          \<lparr>toEmail = BookingDetails.email bd, toName = name bd,
           startTimeISO = BookingDetails.startTimeISO bd, icsContent = ics\<rparr>
          (SENDGRID_KEY env)")
      from \<open>resolveBooking w p = Inr bd\<close> Some g Inr s show ?thesis
        by (cases r') (auto simp: handleBookEmail_def tryBlock_def allStages_def)
    qed
  qed
qed






section \<open>The concrete runs, evaluated\<close>

lemma trim_lower_demo: "toLowerCase (trim '' Ok\<newline>'') = ''ok''"
  by (simp add: trim_def wsLen_def whiteSpace_def lowerAscii_def)

lemma demo_slack_fetch:
  "fetch (demoWorld apy r) (slackRequest bookingsHook payload) = r"
  "fetch (demoWorld apy r) (slackRequest errorsHook payload) = r"
  by (simp_all add: demoWorld_def slackRequest_def APYHUB_ICAL_URL_def bookingsHook_def
      errorsHook_def)


lemma demo_newDate: "newDate (demoWorld apy r) ''2025-05-21T21:30:00.000Z'' = Some 1747863000000"
  by (simp add: demoWorld_def)

lemma demo_end_time:
  "formatInTimeZone (demoWorld apy r) (1747863000000 + 30 * 60 * 1000) z ''HH:mm'' = ''15:00''"
  by (simp add: demoWorld_def)

lemma demo_fetch_apy:
  "fetch (demoWorld apy r) (apyRequest tok b) = Responded apy ''BEGIN:VCALENDAR''"
  by (simp add: demoWorld_def apyRequest_def)


lemma demo_resolve:
  "resolveBooking (demoWorld apy r) (demoInput e) =
     (if e = [] then Inl (MissingRequiredFields [''email''])
      else Inr \<lparr>name = orElse (splitFirst CHR ''@'' e) ''Valued Candidate'', email = e,
                startTimeISO = ''2025-05-21T21:30:00.000Z''\<rparr>)"
  by (simp add: resolveBooking_def demoInput_def demoWorld_def truthyValue_def asString_def
      strOf_def missingFields_def matchDate_def matchTime_def isDigit_def
      naiveDateTimeString_def pacificTimeZone_def)

lemma demo_resolve_ab:
  "resolveBooking (demoWorld apy r) (demoInput ''a.b@x.com'') = Inr demoDetails"
  by (simp add: demo_resolve demoDetails_def orElse_def splitFirst_def)

lemma demo_generateICS:
  "fst (generateICS (demoWorld apy r) demoDetails tok)
     = (if ok apy then Inr ''BEGIN:VCALENDAR'' else Inl (ApyHubStatus apy ''BEGIN:VCALENDAR''))"
  by (simp add: generateICS_def demoDetails_def demo_newDate demo_fetch_apy timeClip_def Let_def)



lemma noFields_resolve:
  "resolveBooking w noFields
     = Inl (MissingRequiredFields [''email'', ''interview_date'', ''interview_time''])"
  by (simp add: resolveBooking_def noFields_def truthyValue_def asString_def missingFields_def)

lemma noFields_not_allStages: "\<not> allStages w env noFields"
  by (simp add: allStages_def noFields_resolve)

lemma noFields_handle:
  "handleBookEmail w env noFields =
     \<lparr>response = \<lparr>status = 500,
        rbody = JsonFailure ''Missing required fields: email, interview_date, interview_time''\<rparr>,
      calls = [],
      background = notifyIfConfigured (SLACK_ERRORS_URL env)
        (failureMessage noFields
           (MissingRequiredFields [''email'', ''interview_date'', ''interview_time'']))\<rparr>"
  by (simp add: handleBookEmail_def tryBlock_def noFields_resolve orElse_def)

lemma demo_handle_503_unconfigured:
  "background (handleBookEmail (demoWorld 503 r) (demoEnv b None) (demoInput ''a.b@x.com'')) = []"
proof -
  obtain cs where "generateICS (demoWorld 503 r) demoDetails ''apy''
      = (Inl (ApyHubStatus 503 ''BEGIN:VCALENDAR''), cs)"
    using demo_generateICS [of 503 r "''apy''"]
    by (cases "generateICS (demoWorld 503 r) demoDetails ''apy''") (simp add: ok_def)
  then show ?thesis
    by (simp add: handleBookEmail_def tryBlock_def demo_resolve_ab demoDetails_def
        demo_newDate demoEnv_def notifyIfConfigured_def truthy_def str_def)
qed


section \<open>The response of the handler\<close>




section \<open>Missing fields\<close>

text \<open>
  C3, as the code has it. When the body is an object whose email is absent, falsy or a
  string, and any of \<open>email\<close>, \<open>interview_date\<close>, \<open>interview_time\<close> is absent or falsy
  (\<open>null\<close> and the empty string included), the handler answers 500 with the message
  \<open>Missing required fields: \<close> followed by exactly the names of those fields, in that
  order and separated by a comma and a space. It calls neither the invite service nor the
  mail service. The failure notification is still dispatched, once, when
  \<open>SLACK_ERRORS_URL\<close> is configured; it is skipped when it is not.
\<close>

theorem missing_fields_outcome:
  "\<not> (truthyValue (BlandWebhookInput.email inputData)
       \<and> asString (BlandWebhookInput.email inputData) = None) \<Longrightarrow>
   \<not> truthyValue (BlandWebhookInput.email inputData) \<or> \<not> truthyValue (interview_date inputData)
     \<or> \<not> truthyValue (interview_time inputData) \<Longrightarrow>
   response (handleBookEmail w env (Object inputData))
     = \<lparr>status = 500,
        rbody = JsonFailure (''Missing required fields: '' @ join '', '' (missingFields inputData))\<rparr>
   \<and> missingFields inputData =
       (if truthyValue (BlandWebhookInput.email inputData) then [] else [''email''])
       @ (if truthyValue (interview_date inputData) then [] else [''interview_date''])
       @ (if truthyValue (interview_time inputData) then [] else [''interview_time''])
   \<and> calls (handleBookEmail w env (Object inputData)) = []
   \<and> background (handleBookEmail w env (Object inputData))
       = (if truthy (SLACK_ERRORS_URL env)
          then [(str (SLACK_ERRORS_URL env),
                 failureMessage (Object inputData)
                   (MissingRequiredFields (missingFields inputData)))]
          else [])"
proof -
  assume "\<not> (truthyValue (BlandWebhookInput.email inputData)
       \<and> asString (BlandWebhookInput.email inputData) = None)"
    and "\<not> truthyValue (BlandWebhookInput.email inputData)
     \<or> \<not> truthyValue (interview_date inputData) \<or> \<not> truthyValue (interview_time inputData)"
  then have r: "resolveBooking w (Object inputData)
                  = Inl (MissingRequiredFields (missingFields inputData))"
    by (simp add: resolveBooking_def)
  show ?thesis
    unfolding handleBookEmail_def tryBlock_def r
    by (simp add: orElse_def notifyIfConfigured_def missingFields_exact [symmetric])
qed

theorem missing_fields_outcome_witness:
  "response (handleBookEmail (demoWorld 200 (Responded 200 ''ok'')) (demoEnv None None)
      (Object \<lparr>email = Str ''a.b@x.com'', interview_date = Null,
               interview_time = NonString True ''1430''\<rparr>))
     = \<lparr>status = 500, rbody = JsonFailure ''Missing required fields: interview_date''\<rparr>
   \<and> calls (handleBookEmail (demoWorld 200 (Responded 200 ''ok'')) (demoEnv None None)
        (Object \<lparr>email = Str ''a.b@x.com'', interview_date = Null,
                 interview_time = NonString True ''1430''\<rparr>)) = []
   \<and> background (handleBookEmail (demoWorld 200 (Responded 200 ''ok'')) (demoEnv None None)
        (Object \<lparr>email = Str ''a.b@x.com'', interview_date = Null,
                 interview_time = NonString True ''1430''\<rparr>)) = []"
proof -
  let ?i = "\<lparr>email = Str ''a.b@x.com'', interview_date = Null,
              interview_time = NonString True ''1430''\<rparr>"
  have s: "\<not> (truthyValue (BlandWebhookInput.email ?i)
              \<and> asString (BlandWebhookInput.email ?i) = None)"
    by (simp add: asString_def)
  have f: "\<not> truthyValue (BlandWebhookInput.email ?i) \<or> \<not> truthyValue (interview_date ?i)
           \<or> \<not> truthyValue (interview_time ?i)"
    by (simp add: truthyValue_def)
  have m: "missingFields ?i = [''interview_date'']"
    by (simp add: missingFields_def truthyValue_def)
  have e: "\<not> truthy (SLACK_ERRORS_URL (demoEnv None None))"
    by (simp add: demoEnv_def truthy_def str_def)
  show ?thesis
    using missing_fields_outcome [OF s f, of "demoWorld 200 (Responded 200 ''ok'')"
        "demoEnv None None"] e
    by (simp add: m)
qed

text \<open>
  The claim as written fails in two ways. It says that no notification goes out: with the
  errors webhook configured, the body with no field leaves one notification pending, and
  running it makes one request to that webhook. And it promises the message naming the
  missing fields for every body: the body \<open>{"email": 123}\<close>, which has neither date nor
  time, is answered with the message of the \<open>TypeError\<close> thrown at line 62.
\<close>

theorem missing_fields_notification_counterexample:
  "map fst (background (handleBookEmail (demoWorld 200 (Responded 200 ''ok''))
      (demoEnv None (Some errorsHook)) noFields)) = [errorsHook]
   \<and> length (concat (map scalls (runBackground (demoWorld 200 (Responded 200 ''ok''))
        (background (handleBookEmail (demoWorld 200 (Responded 200 ''ok''))
           (demoEnv None (Some errorsHook)) noFields))))) = 1
   \<and> missingFields \<lparr>email = NonString True ''123'', interview_date = Undefined,
                     interview_time = Undefined\<rparr> = [''interview_date'', ''interview_time'']
   \<and> rbody (response (handleBookEmail (demoWorld 200 (Responded 200 ''ok''))
        (demoEnv None (Some errorsHook)) numberEmail))
       = JsonFailure ''inputData.email.split is not a function''"
proof -
  have "resolveBooking (demoWorld 200 (Responded 200 ''ok'')) numberEmail
          = Inl (NotAFunction ''inputData.email.split'')"
    by (simp add: numberEmail_def resolveBooking_non_string_email)
  then have "rbody (response (handleBookEmail (demoWorld 200 (Responded 200 ''ok''))
        (demoEnv None (Some errorsHook)) numberEmail))
       = JsonFailure ''inputData.email.split is not a function''"
    by (simp add: handleBookEmail_def tryBlock_def orElse_def)
  moreover have "missingFields \<lparr>email = NonString True ''123'', interview_date = Undefined,
                     interview_time = Undefined\<rparr> = [''interview_date'', ''interview_time'']"
    by (simp add: missingFields_def truthyValue_def)
  ultimately show ?thesis
    by (simp add: noFields_handle notifyIfConfigured_def demoEnv_def truthy_def str_def
        errorsHook_def runBackground_def sendSlackMessage_def split: prod.split sum.split)
qed

section \<open>The invite request\<close>

text \<open>
  C4. Every request that \<open>generateICS\<close> submits goes to the invite service by POST, and
  its body has exactly the nine properties of the source, among them the zone name
  \<open>America/Los_Angeles\<close>, the date and the time of the start instant and the time of the
  instant 30 minutes (1800000 ms) after it, each formatted in that zone; it has no
  \<open>start_date_time\<close> and no \<open>end_date_time\<close>. When the start is a valid Date and the end is
  in the range of a Date, exactly one such request is made.
\<close>

theorem generateICS_request:
  "(\<forall>c \<in> set (snd (generateICS w details tok)).
      \<exists>start b.
        newDate w (BookingDetails.startTimeISO details) = Some start \<and>
        c = Fetch \<lparr>url = APYHUB_ICAL_URL, http_method = ''POST'',
                   headers = [(''Content-Type'', ''application/json''), (''apy-token'', tok)],
                   body = b\<rparr> \<and>
        keys b = [''summary'', ''description'', ''organizer_email'', ''attendees_emails'',
                  ''time_zone'', ''meeting_date'', ''start_time'', ''end_time'',
                  ''organizer_name''] \<and>
        member b ''time_zone'' = Some (JString ''America/Los_Angeles'') \<and>
        member b ''meeting_date''
          = Some (JString (formatInTimeZone w start ''America/Los_Angeles'' ''dd-MM-yyyy'')) \<and>
        member b ''start_time''
          = Some (JString (formatInTimeZone w start ''America/Los_Angeles'' ''HH:mm'')) \<and>
        member b ''end_time''
          = Some (JString (formatInTimeZone w (start + 30 * 60 * 1000) ''America/Los_Angeles''
                             ''HH:mm'')) \<and>
        member b ''start_date_time'' = None \<and> member b ''end_date_time'' = None)
   \<and> (\<forall>start. newDate w (BookingDetails.startTimeISO details) = Some start
          \<and> \<bar>start + 30 * 60 * 1000\<bar> \<le> 8640000000000000
        \<longrightarrow> length (snd (generateICS w details tok)) = 1)"
proof (intro conjI ballI allI impI)
  fix c assume c: "c \<in> set (snd (generateICS w details tok))"
  obtain start where n: "newDate w (BookingDetails.startTimeISO details) = Some start"
    and e: "c = Fetch (apyRequest tok (requestBody w details start (start + 1800000)))"
  proof (cases "newDate w (BookingDetails.startTimeISO details)")
    case None
    with c show ?thesis by (simp add: generateICS_calls)
  next
    case (Some start)
    with c that show ?thesis by (simp add: generateICS_calls split: if_splits)
  qed
  have k: "start + 30 * 60 * 1000 = start + 1800000" by simp
  show "\<exists>start b.
        newDate w (BookingDetails.startTimeISO details) = Some start \<and>
        c = Fetch \<lparr>url = APYHUB_ICAL_URL, http_method = ''POST'',
                   headers = [(''Content-Type'', ''application/json''), (''apy-token'', tok)],
                   body = b\<rparr> \<and>
        keys b = [''summary'', ''description'', ''organizer_email'', ''attendees_emails'',
                  ''time_zone'', ''meeting_date'', ''start_time'', ''end_time'',
                  ''organizer_name''] \<and>
        member b ''time_zone'' = Some (JString ''America/Los_Angeles'') \<and>
        member b ''meeting_date''
          = Some (JString (formatInTimeZone w start ''America/Los_Angeles'' ''dd-MM-yyyy'')) \<and>
        member b ''start_time''
          = Some (JString (formatInTimeZone w start ''America/Los_Angeles'' ''HH:mm'')) \<and>
        member b ''end_time''
          = Some (JString (formatInTimeZone w (start + 30 * 60 * 1000) ''America/Los_Angeles''
                             ''HH:mm'')) \<and>
        member b ''start_date_time'' = None \<and> member b ''end_date_time'' = None"
    by (rule exI [of _ start], rule exI [of _ "requestBody w details start (start + 1800000)"])
       (simp only: n e k apyRequest_def requestBody_members simp_thms)
next
  fix start
  assume "newDate w (BookingDetails.startTimeISO details) = Some start
          \<and> \<bar>start + 30 * 60 * 1000\<bar> \<le> 8640000000000000"
  then show "length (snd (generateICS w details tok)) = 1"
    by (simp add: generateICS_calls)
qed

theorem generateICS_request_witness:
  "\<exists>b. snd (generateICS (demoWorld 200 (Responded 200 ''ok'')) demoDetails ''apy'')
            = [Fetch \<lparr>url = APYHUB_ICAL_URL, http_method = ''POST'',
                      headers = [(''Content-Type'', ''application/json''), (''apy-token'', ''apy'')],
                      body = b\<rparr>]
          \<and> member b ''end_time'' = Some (JString ''15:00'')
          \<and> member b ''start_date_time'' = None"
proof -
  let ?W = "demoWorld 200 (Responded 200 ''ok'')"
  let ?cs = "snd (generateICS ?W demoDetails ''apy'')"
  have n: "newDate ?W (BookingDetails.startTimeISO demoDetails) = Some 1747863000000"
    by (simp add: demoDetails_def demo_newDate)
  have r: "\<bar>(1747863000000::int) + 30 * 60 * 1000\<bar> \<le> 8640000000000000" by simp
  note req = generateICS_request [of ?W demoDetails "''apy''"]
  from req n r have "length ?cs = 1" by blast
  then obtain c where c: "?cs = [c]"
    by (cases ?cs) auto
  then have "c \<in> set ?cs" by simp
  with req obtain start b where
    s: "newDate ?W (BookingDetails.startTimeISO demoDetails) = Some start" and
    b: "c = Fetch \<lparr>url = APYHUB_ICAL_URL, http_method = ''POST'',
                 headers = [(''Content-Type'', ''application/json''), (''apy-token'', ''apy'')],
                 body = b\<rparr>"
    "member b ''end_time''
       = Some (JString (formatInTimeZone ?W (start + 30 * 60 * 1000)
                          ''America/Los_Angeles'' ''HH:mm''))"
    "member b ''start_date_time'' = None"
    by blast
  from s n have "start = 1747863000000" by simp
  with b c show ?thesis
    by (simp only: demo_end_time) blast
qed

section \<open>A failed invite\<close>

text \<open>
  C5, as the code has it. When the booking is resolved and invite generation fails (the
  invite service answers a status that is not a success, or the request itself fails),
  the mail service is never called and the handler answers 500 with
  \<open>{ success: false, error }\<close>. The failure notification is dispatched exactly once
  when \<open>SLACK_ERRORS_URL\<close> is configured; when it is not, none is dispatched.
\<close>

theorem invite_failure_outcome:
  "resolveBooking w p = Inr bd \<Longrightarrow> fst (generateICS w bd (APY_TOKEN env)) = Inl e \<Longrightarrow>
     \<not> list_ex isSgSend (calls (handleBookEmail w env p))
     \<and> response (handleBookEmail w env p)
         = \<lparr>status = 500,
            rbody = JsonFailure
              (orElse (message e) ''Failed to process booking due to an internal error.'')\<rparr>
     \<and> background (handleBookEmail w env p)
         = (if truthy (SLACK_ERRORS_URL env)
            then [(str (SLACK_ERRORS_URL env), failureMessage p e)] else [])"
proof -
  assume r: "resolveBooking w p = Inr bd"
    and g: "fst (generateICS w bd (APY_TOKEN env)) = Inl e"
  obtain cs where g': "generateICS w bd (APY_TOKEN env) = (Inl e, cs)"
    using g by (cases "generateICS w bd (APY_TOKEN env)") simp
  have cs: "\<not> list_ex isSgSend cs"
    using generateICS_no_SgSend [of w bd "APY_TOKEN env"] g' by simp
  show ?thesis
  proof (cases "newDate w (BookingDetails.startTimeISO bd)")
    case None
    with g' have "e = InvalidTimeValue"
      by (simp add: generateICS_def)
    with None r show ?thesis
      by (simp add: handleBookEmail_def tryBlock_def notifyIfConfigured_def)
  next
    case (Some t)
    with r g' cs show ?thesis
      by (simp add: handleBookEmail_def tryBlock_def notifyIfConfigured_def)
  qed
qed

theorem invite_failure_outcome_witness:
  "\<not> list_ex isSgSend (calls (handleBookEmail (demoWorld 503 (Responded 200 ''ok''))
        (demoEnv (Some bookingsHook) (Some errorsHook)) (demoInput ''a.b@x.com'')))
   \<and> response (handleBookEmail (demoWorld 503 (Responded 200 ''ok''))
        (demoEnv (Some bookingsHook) (Some errorsHook)) (demoInput ''a.b@x.com''))
       = \<lparr>status = 500,
          rbody = JsonFailure
            ''Failed to generate ICS: ApyHub returned status 503 - BEGIN:VCALENDAR''\<rparr>
   \<and> map fst (background (handleBookEmail (demoWorld 503 (Responded 200 ''ok''))
        (demoEnv (Some bookingsHook) (Some errorsHook)) (demoInput ''a.b@x.com'')))
       = [errorsHook]"
proof -
  let ?W = "demoWorld 503 (Responded 200 ''ok'')"
  let ?E = "demoEnv (Some bookingsHook) (Some errorsHook)"
  have g: "fst (generateICS ?W demoDetails (APY_TOKEN ?E))
             = Inl (ApyHubStatus 503 ''BEGIN:VCALENDAR'')"
    by (simp add: demo_generateICS ok_def)
  have t: "truthy (SLACK_ERRORS_URL ?E)" "str (SLACK_ERRORS_URL ?E) = errorsHook"
    by (simp_all add: demoEnv_def truthy_def str_def errorsHook_def)
  show ?thesis
    using invite_failure_outcome [OF demo_resolve_ab g] t
    by (simp add: orElse_def digitChar_def)
qed

text \<open>
  The claim as written promises one notification on every failed invite: with no errors
  webhook configured, the invite service's 503 leaves no notification pending.
\<close>

theorem invite_failure_notification_counterexample:
  "fst (generateICS (demoWorld 503 (Responded 200 ''ok'')) demoDetails
         (APY_TOKEN (demoEnv (Some bookingsHook) None)))
     = Inl (ApyHubStatus 503 ''BEGIN:VCALENDAR'')
   \<and> resolveBooking (demoWorld 503 (Responded 200 ''ok'')) (demoInput ''a.b@x.com'')
       = Inr demoDetails
   \<and> background (handleBookEmail (demoWorld 503 (Responded 200 ''ok''))
        (demoEnv (Some bookingsHook) None) (demoInput ''a.b@x.com'')) = []"
  by (simp add: demo_generateICS demo_resolve_ab demo_handle_503_unconfigured ok_def)

section \<open>The Slack notifier\<close>

text \<open>
  C6. A notification is best effort. \<open>sendSlackMessage\<close> on an empty webhook URL makes no
  request and resolves to false; on any URL and payload its promise resolves (it never
  rejects); with a URL, a response whose status is not a success, a rejected \<open>fetch\<close> and a
  body that cannot be read are each logged at error level and give false. In the handler,
  when the destination of the run's outcome (the bookings webhook after a completed
  booking, the errors webhook otherwise) is not configured, no notification is dispatched
  and the response is returned all the same.
\<close>

theorem sendSlackMessage_best_effort:
  "sendSlackMessage w [] payload = \<lparr>delivered = Inr False, slog = [UrlUndefined], scalls = []\<rparr>
   \<and> (\<exists>b. delivered (sendSlackMessage w u payload) = Inr b)
   \<and> (u \<noteq> [] \<longrightarrow> (\<forall>st responseText.
          fetch w (slackRequest u payload) = Responded st responseText \<longrightarrow> \<not> ok st \<longrightarrow>
            delivered (sendSlackMessage w u payload) = Inr False
            \<and> SlackApiError st responseText \<in> set (slog (sendSlackMessage w u payload))
            \<and> levelOf (SlackApiError st responseText) = ERROR))
   \<and> (u \<noteq> [] \<longrightarrow> (\<forall>m. fetch w (slackRequest u payload) = Rejected m \<longrightarrow>
          delivered (sendSlackMessage w u payload) = Inr False
          \<and> SlackException m \<in> set (slog (sendSlackMessage w u payload))
          \<and> levelOf (SlackException m) = ERROR))
   \<and> (u \<noteq> [] \<longrightarrow> (\<forall>st m. fetch w (slackRequest u payload) = BodyFails st m \<longrightarrow>
          delivered (sendSlackMessage w u payload) = Inr False
          \<and> SlackException m \<in> set (slog (sendSlackMessage w u payload))))
   \<and> (\<not> truthy (if allStages w env p then SLACK_BOOKINGS_URL env else SLACK_ERRORS_URL env)
        \<longrightarrow> background (handleBookEmail w env p) = [])"
proof (intro conjI)
  show "sendSlackMessage w [] payload = \<lparr>delivered = Inr False, slog = [UrlUndefined], scalls = []\<rparr>"
    by (simp add: sendSlackMessage_def)
  show "\<exists>b. delivered (sendSlackMessage w u payload) = Inr b"
    by (rule sendSlackMessage_resolves)
  show "u \<noteq> [] \<longrightarrow> (\<forall>st responseText.
          fetch w (slackRequest u payload) = Responded st responseText \<longrightarrow> \<not> ok st \<longrightarrow>
            delivered (sendSlackMessage w u payload) = Inr False
            \<and> SlackApiError st responseText \<in> set (slog (sendSlackMessage w u payload))
            \<and> levelOf (SlackApiError st responseText) = ERROR)"
    by (simp add: sendSlackMessage_def slackTry_def)
  show "u \<noteq> [] \<longrightarrow> (\<forall>m. fetch w (slackRequest u payload) = Rejected m \<longrightarrow>
          delivered (sendSlackMessage w u payload) = Inr False
          \<and> SlackException m \<in> set (slog (sendSlackMessage w u payload))
          \<and> levelOf (SlackException m) = ERROR)"
    by (simp add: sendSlackMessage_def slackTry_def)
  show "u \<noteq> [] \<longrightarrow> (\<forall>st m. fetch w (slackRequest u payload) = BodyFails st m \<longrightarrow>
          delivered (sendSlackMessage w u payload) = Inr False
          \<and> SlackException m \<in> set (slog (sendSlackMessage w u payload)))"
    by (simp add: sendSlackMessage_def slackTry_def)
  show "\<not> truthy (if allStages w env p then SLACK_BOOKINGS_URL env else SLACK_ERRORS_URL env)
        \<longrightarrow> background (handleBookEmail w env p) = []"
    using background_destination [of w env p] by (auto simp: notifyIfConfigured_def)
qed

theorem sendSlackMessage_best_effort_witness:
  "delivered (sendSlackMessage (demoWorld 200 (Responded 500 ''no_service'')) errorsHook (JObject []))
     = Inr False
   \<and> SlackApiError 500 ''no_service''
       \<in> set (slog (sendSlackMessage (demoWorld 200 (Responded 500 ''no_service'')) errorsHook
                 (JObject [])))
   \<and> delivered (sendSlackMessage (demoWorld 200 (Rejected ''timeout'')) errorsHook (JObject []))
     = Inr False
   \<and> background (handleBookEmail (demoWorld 200 (Rejected ''timeout'')) (demoEnv (Some bookingsHook) (Some []))
        noFields) = []"
proof -
  have u: "errorsHook \<noteq> []" by (simp add: errorsHook_def)
  have e: "\<not> truthy (if allStages (demoWorld 200 (Rejected ''timeout''))
                            (demoEnv (Some bookingsHook) (Some [])) noFields
                       then SLACK_BOOKINGS_URL (demoEnv (Some bookingsHook) (Some []))
                       else SLACK_ERRORS_URL (demoEnv (Some bookingsHook) (Some [])))"
    by (simp add: noFields_not_allStages demoEnv_def truthy_def str_def)
  have n: "\<not> ok 500" by (simp add: ok_def)
  show ?thesis
    using u e n demo_slack_fetch(2) [of 200 _ "JObject []"]
      sendSlackMessage_best_effort [of "demoWorld 200 (Responded 500 ''no_service'')"
        "JObject []" errorsHook "demoEnv (Some bookingsHook) (Some [])" noFields]
      sendSlackMessage_best_effort [of "demoWorld 200 (Rejected ''timeout'')"
        "JObject []" errorsHook "demoEnv (Some bookingsHook) (Some [])" noFields]
    by blast
qed

text \<open>
  C7, as the code has it. \<open>sendSlackMessage\<close> resolves to true exactly when the webhook URL
  is not empty, the POST is answered with a success status and the response body, with
  the white space around it trimmed and in lower case, is \<open>ok\<close>.
\<close>

theorem sendSlackMessage_true_iff:
  "delivered (sendSlackMessage w webhookUrl payload) = Inr True \<longleftrightarrow>
     webhookUrl \<noteq> [] \<and>
     (\<exists>st responseText. fetch w (slackRequest webhookUrl payload) = Responded st responseText
        \<and> ok st \<and> toLowerCase (trim responseText) = ''ok'')"
  by (auto simp: sendSlackMessage_def slackTry_def split: fetch_result.splits)

theorem sendSlackMessage_true_iff_witness:
  "delivered (sendSlackMessage (demoWorld 200 (Responded 200 '' Ok\<newline>'')) bookingsHook
      (JObject [])) = Inr True"
proof -
  have "ok 200" by (simp add: ok_def)
  moreover have "bookingsHook \<noteq> []" by (simp add: bookingsHook_def)
  ultimately show ?thesis
    using trim_lower_demo demo_slack_fetch(1) [of 200 "Responded 200 '' Ok\<newline>''" "JObject []"]
      sendSlackMessage_true_iff [of "demoWorld 200 (Responded 200 '' Ok\<newline>'')"
        bookingsHook "JObject []"]
    by blast
qed

text \<open>
  The claim as written asks for the literal body \<open>ok\<close>: the body \<open>OK\<close> is answered with
  true as well.
\<close>

theorem sendSlackMessage_literal_ok_counterexample:
  "delivered (sendSlackMessage (demoWorld 200 (Responded 200 ''OK'')) bookingsHook (JObject []))
     = Inr True
   \<and> ''OK'' \<noteq> ''ok''"
  by (simp add: sendSlackMessage_def slackTry_def demoWorld_def slackRequest_def
      APYHUB_ICAL_URL_def bookingsHook_def ok_def trim_def wsLen_def whiteSpace_def
      lowerAscii_def)

section \<open>The response does not wait for the notification\<close>



section \<open>The derived name\<close>

text \<open>
  C10. Whenever a request passes validation and time resolution, the name of the booking
  is not empty: it is the part of the email before the first \<open>@\<close>, or \<open>Valued Candidate\<close>
  when that part is empty. The data kept for the failure notification takes the same part
  of the email, with the other fallback \<open>Candidate\<close>.
\<close>

theorem derived_name_nonempty:
  "resolveBooking w p = Inr bd \<Longrightarrow>
     name bd \<noteq> [] \<and>
     (\<exists>inputData e. p = Object inputData \<and> BlandWebhookInput.email inputData = Str e \<and> e \<noteq> [] \<and>
        name bd = (if takeWhile (\<lambda>c. c \<noteq> CHR ''@'') e = [] then ''Valued Candidate''
                   else takeWhile (\<lambda>c. c \<noteq> CHR ''@'') e) \<and>
        slackName (bookingDataForSlack p) =
          Some (if takeWhile (\<lambda>c. c \<noteq> CHR ''@'') e = [] then ''Candidate''
                else takeWhile (\<lambda>c. c \<noteq> CHR ''@'') e))"
proof -
  assume "resolveBooking w p = Inr bd"
  then obtain inputData e where p: "p = Object inputData"
    and e: "BlandWebhookInput.email inputData = Str e" "e \<noteq> []"
    and n: "name bd = orElse (splitFirst CHR ''@'' e) ''Valued Candidate''"
    by (auto dest!: resolveBooking_InrD)
  have "name bd \<noteq> []"
    using n by (simp add: orElse_def)
  moreover have "name bd = (if takeWhile (\<lambda>c. c \<noteq> CHR ''@'') e = [] then ''Valued Candidate''
                   else takeWhile (\<lambda>c. c \<noteq> CHR ''@'') e)"
    using n by (simp add: orElse_def splitFirst_def)
  moreover have "slackName (bookingDataForSlack p) =
          Some (if takeWhile (\<lambda>c. c \<noteq> CHR ''@'') e = [] then ''Candidate''
                else takeWhile (\<lambda>c. c \<noteq> CHR ''@'') e)"
    using p e
    by (simp add: bookingDataForSlack_def orElse_def splitFirst_def truthyValue_def
        asString_def)
  ultimately show ?thesis
    using p e by blast
qed

theorem derived_name_nonempty_witness:
  "name \<lparr>name = ''Valued Candidate'', email = ''@x.com'',
          startTimeISO = ''2025-05-21T21:30:00.000Z''\<rparr> \<noteq> []
   \<and> slackName (bookingDataForSlack (demoInput ''@x.com'')) = Some ''Candidate''"
proof -
  have "resolveBooking (demoWorld 200 (Responded 200 ''ok'')) (demoInput ''@x.com'')
        = Inr \<lparr>name = ''Valued Candidate'', email = ''@x.com'',
                startTimeISO = ''2025-05-21T21:30:00.000Z''\<rparr>"
    by (simp add: demo_resolve orElse_def splitFirst_def)
  from derived_name_nonempty [OF this] show ?thesis
    by (auto simp: demoInput_def)
qed

end
